theory Spec2Isabelle
  imports Complex_Main
begin

section \<open>Numbers\<close>

text \<open>
  The engine computes on JavaScript numbers. The model keeps every number the engine
  stores or receives in its configuration and geometry as a \<^typ>\<open>real\<close>: arithmetic is
  exact, so rounding, overflow to an infinity and a zero lane count (where JavaScript
  divides to a non-finite value and HOL to 0) are outside the model. The engine adds
  doubles where the model adds reals: a total the engine keeps over many calls, the pose
  timer or the spawn cooldown, can differ from the exact total in its last digits, and an
  addend far smaller than the total leaves a double unchanged. What is stated below about
  the pose timer and the spawn cooldown is therefore stated for one call, from the value
  the engine holds when the call is made, and with room to spare where a threshold is
  compared.

  Two arguments reach the engine straight from its caller and are tested or clamped by
  the code itself: the time delta of \<open>update\<close> and the coordinate of \<open>moveToLane\<close>. They
  range over \<open>jsnum\<close>, a real or one of the three non-finite values, and so does the
  player's lane, the field the clamped coordinate is stored in. Comparison and
  \<open>Math.max\<close>, \<open>Math.min\<close>, \<open>Math.round\<close> on \<open>jsnum\<close> follow ECMAScript: every comparison
  with NaN is false, and \<open>Math.max\<close> and \<open>Math.min\<close> return NaN as soon as one argument
  is NaN.
\<close>

datatype jsnum = Fin real | PInf | NInf | NaN

fun isFinite :: "jsnum \<Rightarrow> bool" where
  "isFinite (Fin r) = True"
| "isFinite PInf = False"
| "isFinite NInf = False"
| "isFinite NaN = False"

fun js_le :: "jsnum \<Rightarrow> jsnum \<Rightarrow> bool" where
  "js_le NaN b = False"
| "js_le a NaN = False"
| "js_le NInf b = True"
| "js_le a PInf = True"
| "js_le (Fin a) (Fin b) = (a \<le> b)"
| "js_le PInf b = False"
| "js_le (Fin a) NInf = False"

fun js_lt :: "jsnum \<Rightarrow> jsnum \<Rightarrow> bool" where
  "js_lt NaN b = False"
| "js_lt a NaN = False"
| "js_lt PInf b = False"
| "js_lt a NInf = False"
| "js_lt (Fin a) (Fin b) = (a < b)"
| "js_lt NInf b = True"
| "js_lt (Fin a) PInf = True"

fun js_add :: "jsnum \<Rightarrow> jsnum \<Rightarrow> jsnum" where
  "js_add NaN b = NaN"
| "js_add a NaN = NaN"
| "js_add (Fin a) (Fin b) = Fin (a + b)"
| "js_add PInf NInf = NaN"
| "js_add NInf PInf = NaN"
| "js_add PInf b = PInf"
| "js_add NInf b = NInf"
| "js_add (Fin a) b = b"

fun js_neg :: "jsnum \<Rightarrow> jsnum" where
  "js_neg (Fin a) = Fin (- a)"
| "js_neg PInf = NInf"
| "js_neg NInf = PInf"
| "js_neg NaN = NaN"

definition js_sub :: "jsnum \<Rightarrow> jsnum \<Rightarrow> jsnum" where
  "js_sub a b = js_add a (js_neg b)"

definition Math_max :: "jsnum \<Rightarrow> jsnum \<Rightarrow> jsnum" where
  "Math_max a b = (if a = NaN \<or> b = NaN then NaN else if js_le a b then b else a)"

definition Math_min :: "jsnum \<Rightarrow> jsnum \<Rightarrow> jsnum" where
  "Math_min a b = (if a = NaN \<or> b = NaN then NaN else if js_le a b then a else b)"

text \<open>\<open>Math.round\<close> rounds to the nearest integer, a tie going up.\<close>

fun Math_round :: "jsnum \<Rightarrow> jsnum" where
  "Math_round (Fin r) = Fin (real_of_int \<lfloor>r + 1 / 2\<rfloor>)"
| "Math_round PInf = PInf"
| "Math_round NInf = NInf"
| "Math_round NaN = NaN"

definition Math_floor :: "real \<Rightarrow> real" where
  "Math_floor r = real_of_int \<lfloor>r\<rfloor>"

section \<open>Data (types.ts)\<close>

datatype difficultyId = Easy | Medium | Hard

datatype obstacleKind = Low | High

record difficultyOption =
  d_id :: difficultyId
  d_name :: string
  initialSpeedPxPerSec :: real
  initialSpawnIntervalSec :: real

text \<open>
  An obstacle's \<open>id\<close> is a token printed from one \<open>Math.random\<close> draw and the clock; the
  model keeps the draw and leaves the printing and the clock out.
\<close>

record obstacle =
  o_id :: real
  o_lane :: real
  o_kind :: obstacleKind
  o_y :: real
  o_width :: real
  o_height :: real

datatype playerPose = Normal | Jumping | Sliding

section \<open>The presets (config.ts)\<close>

definition DIFFICULTIES :: "difficultyOption list" where
  "DIFFICULTIES =
    [\<lparr>d_id = Easy, d_name = ''Easy'', initialSpeedPxPerSec = 220,
      initialSpawnIntervalSec = 1.35\<rparr>,
     \<lparr>d_id = Medium, d_name = ''Medium'', initialSpeedPxPerSec = 290,
      initialSpawnIntervalSec = 1.05\<rparr>,
     \<lparr>d_id = Hard, d_name = ''Hard'', initialSpeedPxPerSec = 370,
      initialSpawnIntervalSec = 0.85\<rparr>]"

section \<open>The engine (sim.ts)\<close>

record rect =
  rx :: real
  ry :: real
  rw :: real
  rh :: real

definition rectsOverlap :: "rect \<Rightarrow> rect \<Rightarrow> bool" where
  "rectsOverlap a b \<longleftrightarrow>
     rx a < rx b + rw b \<and> rx a + rw a > rx b \<and> ry a < ry b + rh b \<and> ry a + rh a > ry b"

definition clamp :: "jsnum \<Rightarrow> jsnum \<Rightarrow> jsnum \<Rightarrow> jsnum" where
  "clamp n lo hi = Math_max lo (Math_min hi n)"

record simConfig =
  cfg_difficulty :: difficultyOption
  cfg_lanes :: real

record world =
  w_width :: real
  w_height :: real
  roadX :: real
  roadW :: real
  car :: rect

record sim =
  lanes :: real
  difficulty :: difficultyOption
  timeSec :: real
  distancePx :: real
  score :: real
  lane :: jsnum
  pose :: playerPose
  poseT :: real
  speedPxPerSec :: real
  spawnIntervalSec :: real
  spawnCooldownSec :: real
  crashed :: bool
  obstacles :: "obstacle list"

text \<open>The field initialisers of the class, then the body of the constructor.\<close>

definition newLaneRunnerSim :: "simConfig \<Rightarrow> sim" where
  "newLaneRunnerSim cfg =
    \<lparr>lanes = cfg_lanes cfg,
     difficulty = cfg_difficulty cfg,
     timeSec = 0,
     distancePx = 0,
     score = 0,
     lane = Fin 1,
     pose = Normal,
     poseT = 0,
     speedPxPerSec = initialSpeedPxPerSec (cfg_difficulty cfg),
     spawnIntervalSec = initialSpawnIntervalSec (cfg_difficulty cfg),
     spawnCooldownSec = initialSpawnIntervalSec (cfg_difficulty cfg),
     crashed = False,
     obstacles = []\<rparr>"

definition moveLeft :: "sim \<Rightarrow> sim" where
  "moveLeft s = s\<lparr>lane := clamp (js_sub (lane s) (Fin 1)) (Fin 0) (Fin (lanes s - 1))\<rparr>"

definition moveRight :: "sim \<Rightarrow> sim" where
  "moveRight s = s\<lparr>lane := clamp (js_add (lane s) (Fin 1)) (Fin 0) (Fin (lanes s - 1))\<rparr>"

definition moveToLane :: "jsnum \<Rightarrow> sim \<Rightarrow> sim" where
  "moveToLane n s = s\<lparr>lane := clamp (Math_round n) (Fin 0) (Fin (lanes s - 1))\<rparr>"

definition jump :: "sim \<Rightarrow> sim" where
  "jump s = (if pose s = Normal then s\<lparr>pose := Jumping, poseT := 0\<rparr> else s)"

definition slide :: "sim \<Rightarrow> sim" where
  "slide s = (if pose s = Normal then s\<lparr>pose := Sliding, poseT := 0\<rparr> else s)"

definition getObstacleRect :: "sim \<Rightarrow> obstacle \<Rightarrow> real \<Rightarrow> real \<Rightarrow> rect" where
  "getObstacleRect s ob roadX0 roadW0 =
    (let laneWidth = roadW0 / lanes s;
         lanePadding = laneWidth * 0.2;
         x = roadX0 + o_lane ob * laneWidth + lanePadding
               + (laneWidth - 2 * lanePadding - o_width ob) / 2
     in \<lparr>rx = x, ry = o_y ob, rw = o_width ob, rh = o_height ob\<rparr>)"

text \<open>
  \<open>Math.random\<close> is the sequence \<open>rnd\<close> of the draws a call of \<open>update\<close> makes, \<open>rnd k\<close>
  being draw number \<open>k\<close> of the call. \<open>spawnObstacle\<close> makes four draws, in this order:
  the lane, the roll for the kind, the vertical position and the identity token.
\<close>

definition makeId :: "(nat \<Rightarrow> real) \<Rightarrow> nat \<Rightarrow> real" where
  "makeId rnd k = rnd k"

definition spawnObstacle :: "real \<Rightarrow> (nat \<Rightarrow> real) \<Rightarrow> nat \<Rightarrow> sim \<Rightarrow> sim" where
  "spawnObstacle roadW0 rnd k s =
    (let lane0 = Math_floor (rnd k * lanes s);
         laneBias = (if obstacles s \<noteq> [] \<and> o_lane (last (obstacles s)) = lane0
                     then 0.25 else 0);
         roll = rnd (k + 1) + laneBias;
         kind = (if roll < 0.6 then Low else High);
         laneWidth = roadW0 / lanes s;
         width = Math_floor (laneWidth * 0.58);
         height = (if kind = Low then 22 else 26);
         y = - 120 - rnd (k + 2) * 220
     in s\<lparr>obstacles := obstacles s @
          [\<lparr>o_id = makeId rnd (k + 3), o_lane = lane0, o_kind = kind, o_y = y,
            o_width = width, o_height = height\<rparr>]\<rparr>)"

text \<open>
  The \<open>while\<close> loop of \<open>update\<close>. Nothing in the loop itself bounds the number of its
  iterations, so it is a partial function: \<open>None\<close> is the loop that never ends. Each
  iteration makes the four draws of \<open>spawnObstacle\<close> and a fifth one for the jitter.
  The cooldown here is a real number, to which every increment counts. A double that is
  minus infinity, or so far below zero that the increment is lost in the addition, is not
  covered by this definition: from such a cooldown the loop of the engine does not end,
  where this one does.
\<close>

partial_function (option) spawnLoop :: "real \<Rightarrow> (nat \<Rightarrow> real) \<Rightarrow> nat \<Rightarrow> sim \<Rightarrow> sim option" where
  "spawnLoop roadW0 rnd k s =
    (if spawnCooldownSec s \<le> 0 then
       spawnLoop roadW0 rnd (k + 5)
         ((spawnObstacle roadW0 rnd k s)
            \<lparr>spawnCooldownSec := spawnCooldownSec s +
               (spawnIntervalSec s + (rnd (k + 4) * 2 - 1) * (0.15 * spawnIntervalSec s))\<rparr>)
     else Some s)"

text \<open>
  The same loop once more, followed on the cooldown alone and with the cooldown a
  \<open>jsnum\<close>: the guard \<open>spawnCooldownSec <= 0\<close> and the assignment
  \<open>spawnCooldownSec += spawnIntervalSec + (Math.random() * 2 - 1) * jitter\<close>, for the
  values of a JavaScript number that are not real numbers. \<open>spawnObstacle\<close> reads and
  writes neither the cooldown nor the interval and is left out; the draws keep their
  numbers.
\<close>

partial_function (option) cooldownLoop :: "real \<Rightarrow> (nat \<Rightarrow> real) \<Rightarrow> nat \<Rightarrow> jsnum \<Rightarrow> jsnum option" where
  "cooldownLoop interval rnd k c =
    (if js_le c (Fin 0) then
       cooldownLoop interval rnd (k + 5)
         (js_add c (Fin (interval + (rnd (k + 4) * 2 - 1) * (0.15 * interval))))
     else Some c)"

text \<open>The collision loop: it leaves at the first obstacle that overlaps the car.\<close>

fun collisionLoop :: "world \<Rightarrow> sim \<Rightarrow> obstacle list \<Rightarrow> sim" where
  "collisionLoop wd s [] = s"
| "collisionLoop wd s (ob # obs) =
    (if rectsOverlap (car wd) (getObstacleRect s ob (roadX wd) (roadW wd))
     then s\<lparr>crashed := True\<rparr>
     else collisionLoop wd s obs)"

text \<open>
  The phases of \<open>update\<close> after its two guards, for a step \<open>dt\<close> already clamped: clock,
  distance and score; the difficulty ramp; the pose; and, after the spawn loop, the
  movement and pruning of the obstacles. \<open>updatePose\<close> adds the step to the timer the
  state holds and compares the sum with the duration, as the code does; the sum is the
  exact one, the code's is its nearest double, which is at least the duration whenever
  the exact sum is.
\<close>

definition advanceRun :: "real \<Rightarrow> sim \<Rightarrow> sim" where
  "advanceRun dt s =
    (let s1 = s\<lparr>timeSec := timeSec s + dt\<rparr>;
         s2 = s1\<lparr>distancePx := distancePx s1 + speedPxPerSec s1 * dt\<rparr>
     in s2\<lparr>score := timeSec s2 * 12 + distancePx s2 / 18\<rparr>)"

definition rampDifficulty :: "real \<Rightarrow> sim \<Rightarrow> sim" where
  "rampDifficulty dt s =
    (let s1 = s\<lparr>speedPxPerSec := speedPxPerSec s * (1 + 0.005 * dt)\<rparr>
     in s1\<lparr>spawnIntervalSec := max 0.25 (spawnIntervalSec s1 * (1 - 0.01 * dt))\<rparr>)"

definition updatePose :: "real \<Rightarrow> sim \<Rightarrow> sim" where
  "updatePose dt s =
    (if pose s \<noteq> Normal then
       (let s1 = s\<lparr>poseT := poseT s + dt\<rparr>;
            duration = (if pose s1 = Jumping then 0.6 else 0.75)
        in if poseT s1 \<ge> duration then s1\<lparr>pose := Normal, poseT := 0\<rparr> else s1)
     else s)"

definition moveObstacles :: "real \<Rightarrow> world \<Rightarrow> sim \<Rightarrow> sim" where
  "moveObstacles dt wd s =
    (let moved = map (\<lambda>ob. ob\<lparr>o_y := o_y ob + speedPxPerSec s * dt\<rparr>) (obstacles s)
     in s\<lparr>obstacles := filter (\<lambda>ob. o_y ob < w_height wd + 120) moved\<rparr>)"

text \<open>
  \<open>update\<close>. Past its two guards the delta is a finite number, and so is the clamped step:
  the last case of the definition is never taken.
\<close>

definition update :: "jsnum \<Rightarrow> world \<Rightarrow> (nat \<Rightarrow> real) \<Rightarrow> sim \<Rightarrow> sim option" where
  "update dtSec wd rnd s =
    (if crashed s then Some s
     else if \<not> isFinite dtSec \<or> js_le dtSec (Fin 0) then Some s
     else case clamp dtSec (Fin 0) (Fin 0.05) of
       Fin dt \<Rightarrow>
         (let s1 = updatePose dt (rampDifficulty dt (advanceRun dt s));
              s2 = s1\<lparr>spawnCooldownSec := spawnCooldownSec s1 - dt\<rparr>
          in case spawnLoop (roadW wd) rnd 0 s2 of
               None \<Rightarrow> None
             | Some s3 \<Rightarrow>
                 (let s4 = moveObstacles dt wd s3
                  in Some (collisionLoop wd s4 (obstacles s4))))
     | _ \<Rightarrow> Some s)"

section \<open>Runs\<close>

text \<open>
  The calls a driver can make on the engine, and a run of them on one instance. A run
  has no result when one of its \<open>update\<close> calls does not return.
\<close>

datatype command =
    MoveLeft
  | MoveRight
  | MoveToLane jsnum
  | Jump
  | Slide
  | Update jsnum world "nat \<Rightarrow> real"

fun exec :: "command \<Rightarrow> sim \<Rightarrow> sim option" where
  "exec MoveLeft s = Some (moveLeft s)"
| "exec MoveRight s = Some (moveRight s)"
| "exec (MoveToLane n) s = Some (moveToLane n s)"
| "exec Jump s = Some (jump s)"
| "exec Slide s = Some (slide s)"
| "exec (Update dtSec wd rnd) s = update dtSec wd rnd s"

fun run :: "command list \<Rightarrow> sim \<Rightarrow> sim option" where
  "run [] s = Some s"
| "run (c # cs) s = (case exec c s of None \<Rightarrow> None | Some s' \<Rightarrow> run cs s')"


text \<open>The step \<open>update\<close> takes for a positive finite delta: \<open>clamp(dtSec, 0, 0.05)\<close>.\<close>

definition stepOf :: "real \<Rightarrow> real" where
  "stepOf d = max 0 (min 0.05 d)"

section \<open>Example inputs\<close>

text \<open>
  The engine as the canvas component builds it: four lanes and the Easy preset; and the
  geometry that component computes for a 900 by 560 viewport with the car in lane 1,
  pose Normal: the road starts at 72 and is 756 wide, the car is 105.84 by 46 at
  (302.58, 482).
\<close>

definition exampleConfig :: simConfig where
  "exampleConfig = \<lparr>cfg_difficulty = DIFFICULTIES ! 0, cfg_lanes = 4\<rparr>"

definition exampleWorld :: world where
  "exampleWorld =
    \<lparr>w_width = 900, w_height = 560, roadX = 72, roadW = 756,
     car = \<lparr>rx = 302.58, ry = 482, rw = 105.84, rh = 46\<rparr>\<rparr>"

text \<open>A source of draws: every \<open>Math.random()\<close> returns one half.\<close>

definition halves :: "nat \<Rightarrow> real" where
  "halves k = 1 / 2"

text \<open>
  A Low obstacle in lane 1, 109 wide as \<open>spawnObstacle\<close> makes them on this road, placed
  by hand so that its top edge is one pixel above the bottom edge of the car.
\<close>

definition lowObstacle :: obstacle where
  "lowObstacle =
    \<lparr>o_id = 0, o_lane = 1, o_kind = Low, o_y = 527, o_width = 109, o_height = 22\<rparr>"

text \<open>An obstacle placed by hand whose rectangle is the rectangle of the car.\<close>

definition carShapedObstacle :: obstacle where
  "carShapedObstacle =
    \<lparr>o_id = 0, o_lane = 1, o_kind = High, o_y = 482, o_width = 105.84, o_height = 46\<rparr>"

text \<open>
  The example engine with one of these obstacles injected: the Low one at the preset
  speed, the car-shaped one at a speed of 920 pixels per second.
\<close>

definition injectedLow :: sim where
  "injectedLow = (newLaneRunnerSim exampleConfig)\<lparr>obstacles := [lowObstacle]\<rparr>"

definition injectedCarShaped :: sim where
  "injectedCarShaped =
    (newLaneRunnerSim exampleConfig)\<lparr>speedPxPerSec := 920, obstacles := [carShapedObstacle]\<rparr>"

text \<open>The example engine 0.56 seconds into a jump.\<close>

definition lateJump :: sim where
  "lateJump = (jump (newLaneRunnerSim exampleConfig))\<lparr>poseT := 0.56\<rparr>"

text \<open>The example engine a hundredth of a second before its next spawn is due.\<close>

definition dueSpawn :: sim where
  "dueSpawn = (newLaneRunnerSim exampleConfig)\<lparr>spawnCooldownSec := 0.01\<rparr>"

text \<open>The example engine after a crash.\<close>

definition crashedExample :: sim where
  "crashedExample = (newLaneRunnerSim exampleConfig)\<lparr>crashed := True\<rparr>"

text \<open>A configuration whose initial spawn interval, a tenth of a second, is positive.\<close>

definition denseConfig :: simConfig where
  "denseConfig =
    \<lparr>cfg_difficulty = \<lparr>d_id = Hard, d_name = ''Hard'', initialSpeedPxPerSec = 370,
       initialSpawnIntervalSec = 0.1\<rparr>,
     cfg_lanes = 4\<rparr>"

section \<open>The phases of a step\<close>

lemmas example_defs = newLaneRunnerSim_def exampleConfig_def exampleWorld_def DIFFICULTIES_def
  crashedExample_def denseConfig_def halves_def lowObstacle_def carShapedObstacle_def
  injectedLow_def injectedCarShaped_def dueSpawn_def lateJump_def

lemmas step_defs = update_def advanceRun_def rampDifficulty_def updatePose_def moveObstacles_def
  getObstacleRect_def rectsOverlap_def Let_def spawnLoop.simps

lemma clamp_Fin [simp]:
  "clamp (Fin n) (Fin lo) (Fin hi) = Fin (max lo (min hi n))"
  by (simp add: clamp_def Math_max_def Math_min_def max_def min_def)

lemma stepOf_pos: "0 < d \<Longrightarrow> 0 < stepOf d \<and> stepOf d \<le> 0.05 \<and> stepOf d = min d 0.05"
  by (auto simp: stepOf_def min_def max_def)

lemma collisionLoop_eq:
  "collisionLoop wd s obs =
     (if \<exists>ob\<in>set obs. rectsOverlap (car wd) (getObstacleRect s ob (roadX wd) (roadW wd))
      then s\<lparr>crashed := True\<rparr> else s)"
  by (induction obs) auto

lemma pre_fields [simp]:
  "lanes (updatePose dt (rampDifficulty dt (advanceRun dt s))) = lanes s"
  "difficulty (updatePose dt (rampDifficulty dt (advanceRun dt s))) = difficulty s"
  "lane (updatePose dt (rampDifficulty dt (advanceRun dt s))) = lane s"
  "timeSec (updatePose dt (rampDifficulty dt (advanceRun dt s))) = timeSec s + dt"
  "distancePx (updatePose dt (rampDifficulty dt (advanceRun dt s))) =
     distancePx s + speedPxPerSec s * dt"
  "score (updatePose dt (rampDifficulty dt (advanceRun dt s))) =
     (timeSec s + dt) * 12 + (distancePx s + speedPxPerSec s * dt) / 18"
  "speedPxPerSec (updatePose dt (rampDifficulty dt (advanceRun dt s))) =
     speedPxPerSec s * (1 + 0.005 * dt)"
  "spawnIntervalSec (updatePose dt (rampDifficulty dt (advanceRun dt s))) =
     max 0.25 (spawnIntervalSec s * (1 - 0.01 * dt))"
  "spawnCooldownSec (updatePose dt (rampDifficulty dt (advanceRun dt s))) = spawnCooldownSec s"
  "crashed (updatePose dt (rampDifficulty dt (advanceRun dt s))) = crashed s"
  "obstacles (updatePose dt (rampDifficulty dt (advanceRun dt s))) = obstacles s"
  by (simp_all add: updatePose_def rampDifficulty_def advanceRun_def Let_def)

lemma pre_pose:
  "pose (updatePose dt (rampDifficulty dt (advanceRun dt s))) =
     (if pose s = Normal then Normal
      else if (if pose s = Jumping then 0.6 else 0.75) \<le> poseT s + dt then Normal else pose s)"
  "poseT (updatePose dt (rampDifficulty dt (advanceRun dt s))) =
     (if pose s = Normal then poseT s
      else if (if pose s = Jumping then 0.6 else 0.75) \<le> poseT s + dt then 0 else poseT s + dt)"
  by (simp_all add: updatePose_def rampDifficulty_def advanceRun_def Let_def)

lemma update_step:
  assumes "\<not> crashed s" "0 < d"
  shows "update (Fin d) wd rnd s =
     (case spawnLoop (roadW wd) rnd 0
        ((updatePose (stepOf d) (rampDifficulty (stepOf d) (advanceRun (stepOf d) s)))
           \<lparr>spawnCooldownSec :=
              spawnCooldownSec (updatePose (stepOf d) (rampDifficulty (stepOf d) (advanceRun (stepOf d) s)))
                - stepOf d\<rparr>) of
        None \<Rightarrow> None
      | Some s3 \<Rightarrow> Some (collisionLoop wd (moveObstacles (stepOf d) wd s3)
                           (obstacles (moveObstacles (stepOf d) wd s3))))"
  unfolding update_def stepOf_def using assms by (simp add: Let_def cong: option.case_cong)

lemma getObstacleRect_lanes:
  "lanes s' = lanes s \<Longrightarrow> getObstacleRect s' ob x w = getObstacleRect s ob x w"
  by (simp add: getObstacleRect_def)

section \<open>The spawn loop\<close>

lemma spawnLoop_frame:
  assumes "spawnLoop roadW0 rnd k s = Some s'"
  shows "\<exists>new c. s' = s\<lparr>spawnCooldownSec := c, obstacles := obstacles s @ new\<rparr> \<and> 0 < c"
proof (rule spawnLoop.raw_induct
    [where P = "\<lambda>roadW0 rnd k s s'. \<exists>new c. s' = s\<lparr>spawnCooldownSec := c, obstacles := obstacles s @ new\<rparr> \<and> 0 < c",
     OF _ assms])
  fix loop :: "real \<Rightarrow> (nat \<Rightarrow> real) \<Rightarrow> nat \<Rightarrow> sim \<Rightarrow> sim option"
  fix roadW0 rnd k s s'
  assume IH: "\<And>a rnd k s y. loop a rnd k s = Some y \<Longrightarrow>
     \<exists>new c. y = s\<lparr>spawnCooldownSec := c, obstacles := obstacles s @ new\<rparr> \<and> 0 < c"
  assume body: "(if spawnCooldownSec s \<le> 0
      then loop roadW0 rnd (k + 5)
            ((spawnObstacle roadW0 rnd k s)
             \<lparr>spawnCooldownSec :=
                spawnCooldownSec s +
                (spawnIntervalSec s +
                 (rnd (k + 4) * 2 - 1) * (0.15 * spawnIntervalSec s))\<rparr>)
      else Some s) = Some s'"
  show "\<exists>new c. s' = s\<lparr>spawnCooldownSec := c, obstacles := obstacles s @ new\<rparr> \<and> 0 < c"
  proof (cases "spawnCooldownSec s \<le> 0")
    case False
    with body have "s' = s" by simp
    then have "s' = s\<lparr>spawnCooldownSec := spawnCooldownSec s, obstacles := obstacles s @ []\<rparr>"
      by simp
    moreover have "0 < spawnCooldownSec s" using False by simp
    ultimately show ?thesis by blast
  next
    case True
    obtain ob where ob: "spawnObstacle roadW0 rnd k s = s\<lparr>obstacles := obstacles s @ [ob]\<rparr>"
      by (simp add: spawnObstacle_def Let_def)
    define s1 where "s1 = (spawnObstacle roadW0 rnd k s)\<lparr>spawnCooldownSec := spawnCooldownSec s +
               (spawnIntervalSec s + (rnd (k + 4) * 2 - 1) * (0.15 * spawnIntervalSec s))\<rparr>"
    from True body have "loop roadW0 rnd (k + 5) s1 = Some s'" by (simp add: s1_def)
    from IH[OF this] obtain new c where
      "s' = s1\<lparr>spawnCooldownSec := c, obstacles := obstacles s1 @ new\<rparr>" and c: "0 < c"
      by blast
    then have "s' = s\<lparr>spawnCooldownSec := c, obstacles := obstacles s @ (ob # new)\<rparr>"
      by (simp add: s1_def ob)
    with c show ?thesis by blast
  qed
qed

lemma spawn_increment:
  assumes "0 \<le> r" "r < 1" "1 / 4 \<le> (i::real)"
  shows "17 / 80 \<le> i + (r * 2 - 1) * (0.15 * i)"
proof -
  have "- 1 * (0.15 * i) \<le> (r * 2 - 1) * (0.15 * i)"
    using assms by (intro mult_right_mono) auto
  then show ?thesis using assms by simp
qed

lemma spawnLoop_fuel:
  assumes rnd: "\<forall>k. 0 \<le> rnd k \<and> rnd k < 1"
  shows "1 / 4 \<le> spawnIntervalSec s \<Longrightarrow> 0 < spawnCooldownSec s + real n * (17 / 80) \<Longrightarrow>
     \<exists>new c. spawnLoop roadW0 rnd k s = Some (s\<lparr>spawnCooldownSec := c, obstacles := obstacles s @ new\<rparr>)
        \<and> 0 < c \<and> length new \<le> n"
proof (induction n arbitrary: s k)
  case 0
  then have "spawnLoop roadW0 rnd k s = Some s"
    by (subst spawnLoop.simps) simp
  then have "spawnLoop roadW0 rnd k s = Some (s\<lparr>spawnCooldownSec := spawnCooldownSec s, obstacles := obstacles s @ []\<rparr>)"
    by simp
  with 0 show ?case by (metis add.right_neutral length_0_conv le_refl mult_zero_left of_nat_0)
next
  case (Suc n)
  show ?case
  proof (cases "spawnCooldownSec s \<le> 0")
    case False
    then have "spawnLoop roadW0 rnd k s = Some s"
      by (subst spawnLoop.simps) simp
    then have "spawnLoop roadW0 rnd k s = Some (s\<lparr>spawnCooldownSec := spawnCooldownSec s, obstacles := obstacles s @ []\<rparr>)"
      by simp
    moreover have "0 < spawnCooldownSec s" using False by simp
    ultimately show ?thesis by (metis list.size(3) le0)
  next
    case True
    define inc where "inc = spawnIntervalSec s + (rnd (k + 4) * 2 - 1) * (0.15 * spawnIntervalSec s)"
    define s1 where "s1 = (spawnObstacle roadW0 rnd k s)\<lparr>spawnCooldownSec := spawnCooldownSec s + inc\<rparr>"
    obtain ob where ob: "spawnObstacle roadW0 rnd k s = s\<lparr>obstacles := obstacles s @ [ob]\<rparr>"
      by (simp add: spawnObstacle_def Let_def)
    have inc: "17 / 80 \<le> inc"
      unfolding inc_def using rnd Suc.prems(1) by (intro spawn_increment) auto
    have unfold: "spawnLoop roadW0 rnd k s = spawnLoop roadW0 rnd (k + 5) s1"
      using True by (subst spawnLoop.simps) (simp add: s1_def inc_def)
    have i1: "1 / 4 \<le> spawnIntervalSec s1" using Suc.prems(1) by (simp add: s1_def ob)
    have "real (Suc n) * (17 / 80) = real n * (17 / 80) + 17 / 80"
      by (simp add: algebra_simps)
    with Suc.prems(2) inc have "0 < (spawnCooldownSec s + inc) + real n * (17 / 80)"
      by linarith
    then have c1: "0 < spawnCooldownSec s1 + real n * (17 / 80)"
      by (simp add: s1_def ob)
    from Suc.IH[OF i1 c1, of "k + 5"] obtain new c where
      r: "spawnLoop roadW0 rnd (k + 5) s1 = Some (s1\<lparr>spawnCooldownSec := c, obstacles := obstacles s1 @ new\<rparr>)"
      and c: "0 < c" and len: "length new \<le> n" by blast
    have "s1\<lparr>spawnCooldownSec := c, obstacles := obstacles s1 @ new\<rparr>
          = s\<lparr>spawnCooldownSec := c, obstacles := obstacles s @ (ob # new)\<rparr>"
      by (simp add: s1_def ob)
    with r unfold have "spawnLoop roadW0 rnd k s = Some (s\<lparr>spawnCooldownSec := c, obstacles := obstacles s @ (ob # new)\<rparr>)"
      by simp
    moreover have "length (ob # new) \<le> Suc n" using len by simp
    ultimately show ?thesis using c by blast
  qed
qed

lemma spawnLoop_total:
  assumes rnd: "\<forall>k. 0 \<le> rnd k \<and> rnd k < 1" and i: "1 / 4 \<le> spawnIntervalSec s"
  shows "\<exists>new c. spawnLoop roadW0 rnd k s = Some (s\<lparr>spawnCooldownSec := c, obstacles := obstacles s @ new\<rparr>)
        \<and> 0 < c \<and> length new \<le> nat \<lceil>- spawnCooldownSec s * (80 / 17)\<rceil> + 1"
proof -
  let ?n = "nat \<lceil>- spawnCooldownSec s * (80 / 17)\<rceil> + 1"
  have "- spawnCooldownSec s * (80 / 17) \<le> real_of_int \<lceil>- spawnCooldownSec s * (80 / 17)\<rceil>" by linarith
  also have "\<dots> \<le> real (nat \<lceil>- spawnCooldownSec s * (80 / 17)\<rceil>)" by simp
  finally have "- spawnCooldownSec s * (80 / 17) < real ?n" by simp
  then have "0 < spawnCooldownSec s + real ?n * (17 / 80)" by (simp add: field_simps)
  from spawnLoop_fuel[OF rnd i this] show ?thesis .
qed

section \<open>The result of a step\<close>

lemma update_result:
  assumes nc: "\<not> crashed s" and d: "0 < d" and res: "update (Fin d) wd rnd s = Some s'"
  shows "\<exists>new c.
     s' = (updatePose (stepOf d) (rampDifficulty (stepOf d) (advanceRun (stepOf d) s)))
          \<lparr>spawnCooldownSec := c,
           obstacles := filter (\<lambda>ob. o_y ob < w_height wd + 120)
             (map (\<lambda>ob. ob\<lparr>o_y := o_y ob + speedPxPerSec s * (1 + 0.005 * stepOf d) * stepOf d\<rparr>)
                (obstacles s @ new)),
           crashed := (\<exists>ob \<in> set (filter (\<lambda>ob. o_y ob < w_height wd + 120)
             (map (\<lambda>ob. ob\<lparr>o_y := o_y ob + speedPxPerSec s * (1 + 0.005 * stepOf d) * stepOf d\<rparr>)
                (obstacles s @ new))).
            rectsOverlap (car wd) (getObstacleRect s ob (roadX wd) (roadW wd)))\<rparr>
     \<and> 0 < c"
proof -
  define dt where "dt = stepOf d"
  define p where "p = updatePose dt (rampDifficulty dt (advanceRun dt s))"
  define s2 where "s2 = p\<lparr>spawnCooldownSec := spawnCooldownSec p - dt\<rparr>"
  from res update_step[OF nc d, of wd rnd] obtain s3 where
    loop: "spawnLoop (roadW wd) rnd 0 s2 = Some s3"
    and s': "s' = collisionLoop wd (moveObstacles dt wd s3) (obstacles (moveObstacles dt wd s3))"
    by (auto simp: dt_def p_def s2_def split: option.splits)
  from spawnLoop_frame[OF loop] obtain new c where
    s3: "s3 = s2\<lparr>spawnCooldownSec := c, obstacles := obstacles s2 @ new\<rparr>" and c: "0 < c"
    by blast
  define obs where "obs = filter (\<lambda>ob. o_y ob < w_height wd + 120)
             (map (\<lambda>ob. ob\<lparr>o_y := o_y ob + speedPxPerSec s * (1 + 0.005 * dt) * dt\<rparr>)
                (obstacles s @ new))"
  have s4: "moveObstacles dt wd s3 = p\<lparr>spawnCooldownSec := c, obstacles := obs\<rparr>"
    by (simp add: moveObstacles_def s3 s2_def p_def obs_def)
  have nc4: "\<not> crashed (p\<lparr>spawnCooldownSec := c, obstacles := obs\<rparr>)"
    using nc by (simp add: p_def)
  have rect: "getObstacleRect (p\<lparr>spawnCooldownSec := c, obstacles := obs\<rparr>) ob x w
                = getObstacleRect s ob x w" for ob x w
    by (rule getObstacleRect_lanes) (simp add: p_def)
  have "s' = p\<lparr>spawnCooldownSec := c, obstacles := obs,
              crashed := (\<exists>ob \<in> set obs. rectsOverlap (car wd) (getObstacleRect s ob (roadX wd) (roadW wd)))\<rparr>"
    using nc4 by (simp add: s' s4 collisionLoop_eq rect)
  then show ?thesis using c unfolding obs_def p_def dt_def by blast
qed

lemma update_returns:
  assumes nc: "\<not> crashed s" and d: "0 < d" and rnd: "\<forall>k. 0 \<le> rnd k \<and> rnd k < 1"
  shows "\<exists>s'. update (Fin d) wd rnd s = Some s' \<and>
     length (obstacles s') \<le>
       length (obstacles s) + nat \<lceil>(stepOf d - spawnCooldownSec s) * (80 / 17)\<rceil> + 1"
proof -
  define dt where "dt = stepOf d"
  define p where "p = updatePose dt (rampDifficulty dt (advanceRun dt s))"
  define s2 where "s2 = p\<lparr>spawnCooldownSec := spawnCooldownSec p - dt\<rparr>"
  have i2: "1 / 4 \<le> spawnIntervalSec s2" by (simp add: s2_def p_def)
  from spawnLoop_total[OF rnd i2, of "roadW wd" 0] obtain new c where
    loop: "spawnLoop (roadW wd) rnd 0 s2
             = Some (s2\<lparr>spawnCooldownSec := c, obstacles := obstacles s2 @ new\<rparr>)"
    and len: "length new \<le> nat \<lceil>- spawnCooldownSec s2 * (80 / 17)\<rceil> + 1"
    by blast
  have neg: "- spawnCooldownSec s2 = dt - spawnCooldownSec s" by (simp add: s2_def p_def)
  define s3 where "s3 = s2\<lparr>spawnCooldownSec := c, obstacles := obstacles s2 @ new\<rparr>"
  define s' where "s' = collisionLoop wd (moveObstacles dt wd s3) (obstacles (moveObstacles dt wd s3))"
  have res: "update (Fin d) wd rnd s = Some s'"
    using update_step[OF nc d, of wd rnd] loop by (simp add: dt_def p_def s2_def s3_def s'_def)
  have "obstacles s' = obstacles (moveObstacles dt wd s3)"
    by (simp add: s'_def collisionLoop_eq)
  also have "length \<dots> \<le> length (obstacles s3)"
    by (simp add: moveObstacles_def)
  also have "\<dots> = length (obstacles s) + length new" by (simp add: s3_def s2_def p_def)
  finally have "length (obstacles s') \<le> length (obstacles s) + length new" .
  with len neg res show ?thesis unfolding dt_def by auto
qed

section \<open>Calls that change nothing\<close>

text \<open>
  C7. A call of \<open>update\<close> in a crashed state, or with a delta that is NaN, plus or minus
  infinity, or at most 0, returns, and returns the state it was given: no field changes
  and no error is raised.
\<close>

theorem update_ignores_bad_delta:
  assumes "crashed s \<or> dtSec = NaN \<or> dtSec = PInf \<or> dtSec = NInf \<or> (\<exists>d. dtSec = Fin d \<and> d \<le> 0)"
  shows "update dtSec wd rnd s = Some s"
  using assms by (auto simp: update_def)

theorem update_ignores_bad_delta_witness:
  "update NaN exampleWorld halves (newLaneRunnerSim exampleConfig) = Some (newLaneRunnerSim exampleConfig) \<and>
   update PInf exampleWorld halves (newLaneRunnerSim exampleConfig) = Some (newLaneRunnerSim exampleConfig) \<and>
   update NInf exampleWorld halves (newLaneRunnerSim exampleConfig) = Some (newLaneRunnerSim exampleConfig) \<and>
   update (Fin 0) exampleWorld halves (newLaneRunnerSim exampleConfig) = Some (newLaneRunnerSim exampleConfig) \<and>
   update (Fin (1 / 60)) exampleWorld halves crashedExample = Some crashedExample"
proof -
  have c: "crashed crashedExample" by (simp add: crashedExample_def)
  have z: "\<exists>d. Fin 0 = Fin d \<and> d \<le> 0" by simp
  show ?thesis
    using update_ignores_bad_delta[of _ NaN] update_ignores_bad_delta[of _ PInf]
      update_ignores_bad_delta[of _ NInf] update_ignores_bad_delta[of _ "Fin 0"]
      update_ignores_bad_delta[of crashedExample] c z
    by blast
qed

text \<open>
  C9. While the pose is Jumping or Sliding, \<open>jump\<close> and \<open>slide\<close> return the state they
  were given, every field included; from Normal, \<open>jump\<close> sets the pose to Jumping and
  \<open>slide\<close> to Sliding, each with the pose-elapsed time set to 0 and nothing else changed.
\<close>

theorem jump_slide_frame:
  "(pose s \<noteq> Normal \<longrightarrow> jump s = s \<and> slide s = s) \<and>
   (pose s = Normal \<longrightarrow>
      jump s = s\<lparr>pose := Jumping, poseT := 0\<rparr> \<and> slide s = s\<lparr>pose := Sliding, poseT := 0\<rparr>)"
  by (simp add: jump_def slide_def)

theorem jump_slide_frame_witness:
  "jump (jump (newLaneRunnerSim exampleConfig)) = jump (newLaneRunnerSim exampleConfig) \<and>
   slide (jump (newLaneRunnerSim exampleConfig)) = jump (newLaneRunnerSim exampleConfig) \<and>
   jump (slide (newLaneRunnerSim exampleConfig)) = slide (newLaneRunnerSim exampleConfig) \<and>
   pose (jump (newLaneRunnerSim exampleConfig)) = Jumping \<and>
   poseT (slide (newLaneRunnerSim exampleConfig)) = 0"
proof -
  have n: "pose (newLaneRunnerSim exampleConfig) = Normal" by (simp add: newLaneRunnerSim_def)
  have j: "pose (jump (newLaneRunnerSim exampleConfig)) \<noteq> Normal"
    by (simp add: newLaneRunnerSim_def jump_def)
  have sl: "pose (slide (newLaneRunnerSim exampleConfig)) \<noteq> Normal"
    by (simp add: newLaneRunnerSim_def slide_def)
  from jump_slide_frame[of "newLaneRunnerSim exampleConfig"] n
  have a: "jump (newLaneRunnerSim exampleConfig) = (newLaneRunnerSim exampleConfig)\<lparr>pose := Jumping, poseT := 0\<rparr>"
    "slide (newLaneRunnerSim exampleConfig) = (newLaneRunnerSim exampleConfig)\<lparr>pose := Sliding, poseT := 0\<rparr>"
    by simp_all
  from jump_slide_frame[of "jump (newLaneRunnerSim exampleConfig)"] j
  have b: "jump (jump (newLaneRunnerSim exampleConfig)) = jump (newLaneRunnerSim exampleConfig)"
     "slide (jump (newLaneRunnerSim exampleConfig)) = jump (newLaneRunnerSim exampleConfig)"
    by simp_all
  from jump_slide_frame[of "slide (newLaneRunnerSim exampleConfig)"] sl
  have c: "jump (slide (newLaneRunnerSim exampleConfig)) = slide (newLaneRunnerSim exampleConfig)"
    by simp
  show ?thesis using b c by (simp add: a)
qed

section \<open>Construction\<close>

text \<open>
  The class initialises the lane to 1 whatever the lane count: with four lanes the player
  starts in lane 1, not in lane 2.
\<close>

theorem initial_lane_counterexample:
  "cfg_lanes exampleConfig = 4 \<and> lane (newLaneRunnerSim exampleConfig) \<noteq> Fin 2"
  by (simp add: newLaneRunnerSim_def exampleConfig_def)

text \<open>
  C3, amended. Construction from a configuration, with four lanes as with any other lane
  count, puts the player in lane 1 (of four lanes, the left one of the two in the middle),
  pose Normal, with elapsed time, distance, score and pose-elapsed time zero, speed and
  spawn interval equal to the configuration's initial values, the spawn cooldown equal to
  the initial spawn interval, not crashed, and no obstacle.
\<close>

theorem construction:
  "lanes (newLaneRunnerSim cfg) = cfg_lanes cfg \<and>
   difficulty (newLaneRunnerSim cfg) = cfg_difficulty cfg \<and>
   lane (newLaneRunnerSim cfg) = Fin 1 \<and>
   pose (newLaneRunnerSim cfg) = Normal \<and>
   poseT (newLaneRunnerSim cfg) = 0 \<and>
   timeSec (newLaneRunnerSim cfg) = 0 \<and>
   distancePx (newLaneRunnerSim cfg) = 0 \<and>
   score (newLaneRunnerSim cfg) = 0 \<and>
   speedPxPerSec (newLaneRunnerSim cfg) = initialSpeedPxPerSec (cfg_difficulty cfg) \<and>
   spawnIntervalSec (newLaneRunnerSim cfg) = initialSpawnIntervalSec (cfg_difficulty cfg) \<and>
   spawnCooldownSec (newLaneRunnerSim cfg) = initialSpawnIntervalSec (cfg_difficulty cfg) \<and>
   \<not> crashed (newLaneRunnerSim cfg) \<and>
   obstacles (newLaneRunnerSim cfg) = []"
  by (simp add: newLaneRunnerSim_def)

theorem construction_witness:
  "lanes (newLaneRunnerSim exampleConfig) = 4 \<and>
   lane (newLaneRunnerSim exampleConfig) = Fin 1 \<and>
   speedPxPerSec (newLaneRunnerSim exampleConfig) = 220 \<and>
   spawnIntervalSec (newLaneRunnerSim exampleConfig) = 1.35 \<and>
   spawnCooldownSec (newLaneRunnerSim exampleConfig) = 1.35"
  using construction[of exampleConfig] by (simp add: exampleConfig_def DIFFICULTIES_def)

section \<open>After the crash\<close>

text \<open>
  The commands do not test the crashed flag: in a crashed engine \<open>moveLeft\<close> and
  \<open>moveToLane\<close> still change the lane and \<open>jump\<close> still changes the pose.
\<close>

theorem commands_after_crash_counterexample:
  "crashed crashedExample \<and>
   lane (moveLeft crashedExample) \<noteq> lane crashedExample \<and>
   lane (moveToLane (Fin 3) crashedExample) \<noteq> lane crashedExample \<and>
   pose (jump crashedExample) \<noteq> pose crashedExample"
  by (simp add: example_defs moveLeft_def moveToLane_def jump_def js_sub_def)

text \<open>
  C2, amended. Once the crashed flag is true, every call of \<open>update\<close> returns the state
  unchanged, whatever its arguments. The commands behave as before the crash: \<open>moveLeft\<close>,
  \<open>moveRight\<close> and \<open>moveToLane\<close> change no field but the lane, \<open>jump\<close> and \<open>slide\<close> no
  field but the pose and the pose-elapsed time; so none of them changes a run counter, the
  speed, the spawn timers, the obstacles or the crashed flag.
\<close>

theorem crashed_is_terminal:
  assumes "crashed s"
  shows "update dtSec wd rnd s = Some s \<and>
    moveLeft s = s\<lparr>lane := lane (moveLeft s)\<rparr> \<and>
    moveRight s = s\<lparr>lane := lane (moveRight s)\<rparr> \<and>
    moveToLane n s = s\<lparr>lane := lane (moveToLane n s)\<rparr> \<and>
    jump s = s\<lparr>pose := pose (jump s), poseT := poseT (jump s)\<rparr> \<and>
    slide s = s\<lparr>pose := pose (slide s), poseT := poseT (slide s)\<rparr>"
  using assms by (simp add: update_def moveLeft_def moveRight_def moveToLane_def jump_def slide_def)

theorem crashed_is_terminal_witness:
  "update (Fin (1 / 60)) exampleWorld halves crashedExample = Some crashedExample \<and>
   score (moveLeft crashedExample) = score crashedExample \<and>
   obstacles (jump crashedExample) = obstacles crashedExample \<and>
   crashed (moveToLane (Fin 3) crashedExample)"
proof -
  have c: "crashed crashedExample" by (simp add: crashedExample_def)
  from crashed_is_terminal[OF c, of "Fin (1 / 60)" exampleWorld halves "Fin 3"]
  have u: "update (Fin (1 / 60)) exampleWorld halves crashedExample = Some crashedExample"
    and l: "moveLeft crashedExample = crashedExample\<lparr>lane := lane (moveLeft crashedExample)\<rparr>"
    and m: "moveToLane (Fin 3) crashedExample = crashedExample\<lparr>lane := lane (moveToLane (Fin 3) crashedExample)\<rparr>"
    and j: "jump crashedExample = crashedExample\<lparr>pose := pose (jump crashedExample), poseT := poseT (jump crashedExample)\<rparr>"
    by blast+
  have "score (moveLeft crashedExample) = score crashedExample" by (subst l) simp
  moreover have "obstacles (jump crashedExample) = obstacles crashedExample" by (subst j) simp
  moreover have "crashed (moveToLane (Fin 3) crashedExample)" using c by (subst m) simp
  ultimately show ?thesis using u by simp
qed

section \<open>The lane\<close>

text \<open>
  With at least one lane, \<open>clamp\<close> brings every coordinate that is a number, the two
  infinities included, into the range of the lanes.
\<close>

lemma clamp_range:
  assumes "n \<noteq> NaN" "lo \<le> hi"
  shows "\<exists>r. clamp n (Fin lo) (Fin hi) = Fin r \<and> lo \<le> r \<and> r \<le> hi"
  using assms by (cases n) (auto simp: clamp_def Math_max_def Math_min_def)

lemma lane_clamped_unless_NaN:
  assumes "1 \<le> lanes s"
  shows "n \<noteq> NaN \<Longrightarrow> js_le (Fin 0) (lane (moveToLane n s)) \<and> js_lt (lane (moveToLane n s)) (Fin (lanes s))"
    and "lane s \<noteq> NaN \<Longrightarrow> js_le (Fin 0) (lane (moveLeft s)) \<and> js_lt (lane (moveLeft s)) (Fin (lanes s))"
    and "lane s \<noteq> NaN \<Longrightarrow> js_le (Fin 0) (lane (moveRight s)) \<and> js_lt (lane (moveRight s)) (Fin (lanes s))"
proof -
  have le: "0 \<le> lanes s - 1" using assms by simp
  { fix m assume "m \<noteq> NaN"
    from clamp_range[OF this le] obtain r where "clamp m (Fin 0) (Fin (lanes s - 1)) = Fin r" "0 \<le> r" "r \<le> lanes s - 1"
      by blast
    then have "js_le (Fin 0) (clamp m (Fin 0) (Fin (lanes s - 1))) \<and> js_lt (clamp m (Fin 0) (Fin (lanes s - 1))) (Fin (lanes s))"
      by simp }
  note * = this
  show "n \<noteq> NaN \<Longrightarrow> js_le (Fin 0) (lane (moveToLane n s)) \<and> js_lt (lane (moveToLane n s)) (Fin (lanes s))"
    using *[of "Math_round n"] by (cases n) (simp_all add: moveToLane_def)
  show "lane s \<noteq> NaN \<Longrightarrow> js_le (Fin 0) (lane (moveLeft s)) \<and> js_lt (lane (moveLeft s)) (Fin (lanes s))"
    using *[of "js_sub (lane s) (Fin 1)"] by (cases "lane s") (simp_all add: moveLeft_def js_sub_def)
  show "lane s \<noteq> NaN \<Longrightarrow> js_le (Fin 0) (lane (moveRight s)) \<and> js_lt (lane (moveRight s)) (Fin (lanes s))"
    using *[of "js_add (lane s) (Fin 1)"] by (cases "lane s") (simp_all add: moveRight_def)
qed

text \<open>
  C4. The lane is to stay within \<open>0 \<le> lane < laneCount\<close> for every argument of
  \<open>moveToLane\<close>. For NaN it does not: \<open>Math.round\<close>, \<open>Math.min\<close> and \<open>Math.max\<close> all
  pass NaN on, so \<open>moveToLane(NaN)\<close> stores NaN as the lane, NaN is neither at least 0
  nor below the lane count, and \<open>moveLeft\<close> and \<open>moveRight\<close> leave it NaN.
\<close>

theorem moveToLane_NaN_escapes_clamp:
  "lane (moveToLane NaN (newLaneRunnerSim exampleConfig)) = NaN \<and>
   \<not> js_le (Fin 0) (lane (moveToLane NaN (newLaneRunnerSim exampleConfig))) \<and>
   \<not> js_lt (lane (moveToLane NaN (newLaneRunnerSim exampleConfig)))
        (Fin (lanes (moveToLane NaN (newLaneRunnerSim exampleConfig)))) \<and>
   lane (moveLeft (moveToLane NaN (newLaneRunnerSim exampleConfig))) = NaN \<and>
   lane (moveRight (moveToLane NaN (newLaneRunnerSim exampleConfig))) = NaN"
  by (simp add: moveToLane_def moveLeft_def moveRight_def clamp_def Math_max_def Math_min_def js_sub_def)

theorem moveToLane_NaN_escapes_clamp_witness:
  "lane (moveToLane NaN (newLaneRunnerSim exampleConfig)) \<noteq> Fin 1 \<and>
   lane (moveLeft (moveToLane NaN (newLaneRunnerSim exampleConfig))) \<noteq> Fin 0"
  using moveToLane_NaN_escapes_clamp by simp

section \<open>Fields after a step\<close>

lemma update_cases:
  assumes "update dtSec wd rnd s = Some s'"
  shows "s' = s \<or> (\<not> crashed s \<and> (\<exists>d. dtSec = Fin d \<and> 0 < d))"
proof (cases dtSec)
  case (Fin d)
  with assms show ?thesis by (cases "crashed s"; cases "0 < d") (auto simp: update_def)
qed (use assms in \<open>auto simp: update_def split: if_splits\<close>)

lemma update_fields:
  assumes "\<not> crashed s" "0 < d" "update (Fin d) wd rnd s = Some s'"
  shows "lanes s' = lanes s" "difficulty s' = difficulty s" "lane s' = lane s"
    "timeSec s' = timeSec s + stepOf d"
    "distancePx s' = distancePx s + speedPxPerSec s * stepOf d"
    "score s' = timeSec s' * 12 + distancePx s' / 18"
    "speedPxPerSec s' = speedPxPerSec s * (1 + 0.005 * stepOf d)"
    "spawnIntervalSec s' = max 0.25 (spawnIntervalSec s * (1 - 0.01 * stepOf d))"
    "0 < spawnCooldownSec s'"
    "pose s' = (if pose s = Normal then Normal
      else if (if pose s = Jumping then 0.6 else 0.75) \<le> poseT s + stepOf d then Normal else pose s)"
    "poseT s' = (if pose s = Normal then poseT s
      else if (if pose s = Jumping then 0.6 else 0.75) \<le> poseT s + stepOf d then 0
      else poseT s + stepOf d)"
  using update_result[OF assms] by (auto simp: pre_pose)

lemma exec_score_inv:
  assumes inv: "score s = timeSec s * 12 + distancePx s / 18" "0 \<le> speedPxPerSec s"
    and ex: "exec c s = Some s'"
  shows "score s' = timeSec s' * 12 + distancePx s' / 18 \<and> 0 \<le> speedPxPerSec s' \<and> score s \<le> score s'"
proof (cases c)
  case (Update dtSec wd rnd)
  with ex have u: "update dtSec wd rnd s = Some s'" by simp
  from update_cases[OF u] show ?thesis
  proof
    assume "s' = s" with inv show ?thesis by simp
  next
    assume "\<not> crashed s \<and> (\<exists>d. dtSec = Fin d \<and> 0 < d)"
    then obtain d where nc: "\<not> crashed s" and dt: "dtSec = Fin d" and d: "0 < d" by blast
    note f = update_fields[OF nc d u[unfolded dt]]
    have st: "0 < stepOf d" using stepOf_pos[OF d] by blast
    have sp: "0 \<le> speedPxPerSec s'" using inv(2) st by (simp add: f(7))
    define a where "a = speedPxPerSec s * stepOf d"
    have a: "0 \<le> a" using inv(2) st by (simp add: a_def)
    have "score s' = (timeSec s * 12 + distancePx s / 18) + (stepOf d * 12 + a / 18)"
      by (simp add: f(6) f(4) f(5) a_def algebra_simps add_divide_distrib)
    moreover have "0 \<le> stepOf d * 12 + a / 18" using st a by simp
    ultimately have "score s \<le> score s'" using inv(1) by simp
    with sp f(6) show ?thesis by simp
  qed
qed (use inv ex in \<open>auto simp: moveLeft_def moveRight_def moveToLane_def jump_def slide_def\<close>)

lemma run_score_inv:
  "score s = timeSec s * 12 + distancePx s / 18 \<Longrightarrow> 0 \<le> speedPxPerSec s \<Longrightarrow>
   run cmds s = Some s' \<Longrightarrow>
   score s' = timeSec s' * 12 + distancePx s' / 18 \<and> 0 \<le> speedPxPerSec s' \<and> score s \<le> score s'"
proof (induction cmds arbitrary: s)
  case Nil
  then show ?case by simp
next
  case (Cons c cmds)
  from Cons.prems(3) obtain s1 where e: "exec c s = Some s1" and r: "run cmds s1 = Some s'"
    by (auto split: option.splits)
  from exec_score_inv[OF Cons.prems(1,2) e] Cons.IH[OF _ _ r] show ?case by force
qed

section \<open>Score\<close>

text \<open>
  C6. A step that takes effect (not crashed, positive finite delta) adds the clamped delta
  to the elapsed time, adds the speed before the ramp times the clamped delta to the
  distance, and sets the score to elapsed time times 12 plus distance over 18, both taken
  after the addition. In an engine built from a configuration whose initial speed is not
  negative, whatever calls were made on it since, the score after the step is at least
  the score before it, and no later call lowers it.
\<close>

theorem score_formula:
  assumes nc: "\<not> crashed s" and d: "0 < d"
    and upd: "update (Fin d) wd rnd s = Some s'"
  shows "timeSec s' = timeSec s + stepOf d \<and>
     distancePx s' = distancePx s + speedPxPerSec s * stepOf d \<and>
     score s' = timeSec s' * 12 + distancePx s' / 18 \<and>
     (0 \<le> initialSpeedPxPerSec (cfg_difficulty cfg) \<and>
      run cmds (newLaneRunnerSim cfg) = Some s \<longrightarrow>
        score s \<le> score s' \<and>
        (\<forall>more s''. run more s' = Some s'' \<longrightarrow> score s' \<le> score s''))"
proof -
  note f = update_fields[OF nc d upd]
  have mono: "score s \<le> score s' \<and>
        (\<forall>more s''. run more s' = Some s'' \<longrightarrow> score s' \<le> score s'')"
    if cfg: "0 \<le> initialSpeedPxPerSec (cfg_difficulty cfg)"
      and reach: "run cmds (newLaneRunnerSim cfg) = Some s"
  proof -
    have i0: "score (newLaneRunnerSim cfg)
        = timeSec (newLaneRunnerSim cfg) * 12 + distancePx (newLaneRunnerSim cfg) / 18"
      "0 \<le> speedPxPerSec (newLaneRunnerSim cfg)"
      using cfg by (simp_all add: newLaneRunnerSim_def)
    from run_score_inv[OF i0 reach]
    have inv: "score s = timeSec s * 12 + distancePx s / 18" "0 \<le> speedPxPerSec s"
      by simp_all
    have e: "exec (Update (Fin d) wd rnd) s = Some s'" using upd by simp
    from exec_score_inv[OF inv e]
    have inv': "score s' = timeSec s' * 12 + distancePx s' / 18"
      "0 \<le> speedPxPerSec s'" "score s \<le> score s'" by simp_all
    have "\<forall>more s''. run more s' = Some s'' \<longrightarrow> score s' \<le> score s''"
      using run_score_inv[OF inv'(1,2)] by blast
    with inv'(3) show ?thesis by blast
  qed
  from f(4) f(5) f(6) mono show ?thesis by blast
qed

theorem score_formula_witness:
  "map_option (\<lambda>s. (timeSec s, distancePx s, score s))
     (update (Fin (1 / 50)) exampleWorld halves (newLaneRunnerSim exampleConfig))
   = Some (1 / 50, 22 / 5, 109 / 225) \<and>
   score (newLaneRunnerSim exampleConfig) \<le> 109 / 225"
proof -
  have cfg: "0 \<le> initialSpeedPxPerSec (cfg_difficulty exampleConfig)"
    by (simp add: exampleConfig_def DIFFICULTIES_def)
  have reach: "run [] (newLaneRunnerSim exampleConfig) = Some (newLaneRunnerSim exampleConfig)"
    by simp
  have nc: "\<not> crashed (newLaneRunnerSim exampleConfig)" by (simp add: newLaneRunnerSim_def)
  have d: "(0::real) < 1 / 50" by simp
  obtain s' where
    upd: "update (Fin (1 / 50)) exampleWorld halves (newLaneRunnerSim exampleConfig) = Some s'"
    using update_returns[OF nc d, of halves exampleWorld] by (auto simp: halves_def)
  from score_formula[OF nc d upd, of exampleConfig "[]"] cfg reach
  have "timeSec s' = timeSec (newLaneRunnerSim exampleConfig) + stepOf (1 / 50)"
    "distancePx s' = distancePx (newLaneRunnerSim exampleConfig)
        + speedPxPerSec (newLaneRunnerSim exampleConfig) * stepOf (1 / 50)"
    "score s' = timeSec s' * 12 + distancePx s' / 18"
    "score (newLaneRunnerSim exampleConfig) \<le> score s'"
    by blast+
  then have "timeSec s' = 1 / 50 \<and> distancePx s' = 22 / 5 \<and> score s' = 109 / 225 \<and>
      score (newLaneRunnerSim exampleConfig) \<le> 109 / 225"
    by (simp add: stepOf_def newLaneRunnerSim_def exampleConfig_def DIFFICULTIES_def)
  then show ?thesis unfolding upd by simp
qed

section \<open>The difficulty ramp\<close>

lemma exec_ramp:
  assumes sp: "0 \<le> speedPxPerSec s" and iv: "1 / 4 \<le> spawnIntervalSec s"
    and ex: "exec c s = Some s'"
  shows "speedPxPerSec s \<le> speedPxPerSec s' \<and> spawnIntervalSec s' \<le> spawnIntervalSec s \<and>
         1 / 4 \<le> spawnIntervalSec s'"
proof (cases c)
  case (Update dtSec wd rnd)
  with ex have u: "update dtSec wd rnd s = Some s'" by simp
  from update_cases[OF u] show ?thesis
  proof
    assume "s' = s" with iv show ?thesis by simp
  next
    assume "\<not> crashed s \<and> (\<exists>d. dtSec = Fin d \<and> 0 < d)"
    then obtain d where nc: "\<not> crashed s" and dt: "dtSec = Fin d" and d: "0 < d" by blast
    note f = update_fields[OF nc d u[unfolded dt]]
    have st: "0 < stepOf d" "stepOf d \<le> 0.05" using stepOf_pos[OF d] by blast+
    have "speedPxPerSec s * 1 \<le> speedPxPerSec s * (1 + 0.005 * stepOf d)"
      using sp st by (intro mult_left_mono) auto
    then have a: "speedPxPerSec s \<le> speedPxPerSec s'" by (simp add: f(7))
    have "spawnIntervalSec s * (1 - 0.01 * stepOf d) \<le> spawnIntervalSec s * 1"
      using iv st by (intro mult_left_mono) auto
    then have b: "spawnIntervalSec s' \<le> spawnIntervalSec s" using iv by (simp add: f(8))
    have "1 / 4 \<le> spawnIntervalSec s'" by (simp add: f(8))
    with a b show ?thesis by simp
  qed
qed (use iv ex in \<open>auto simp: moveLeft_def moveRight_def moveToLane_def jump_def slide_def\<close>)

lemma run_ramp:
  "0 \<le> speedPxPerSec s \<Longrightarrow> 1 / 4 \<le> spawnIntervalSec s \<Longrightarrow> run cmds s = Some s' \<Longrightarrow>
   speedPxPerSec s \<le> speedPxPerSec s' \<and> spawnIntervalSec s' \<le> spawnIntervalSec s \<and>
   1 / 4 \<le> spawnIntervalSec s'"
proof (induction cmds arbitrary: s)
  case Nil
  then show ?case by simp
next
  case (Cons c cmds)
  from Cons.prems(3) obtain s1 where e: "exec c s = Some s1" and r: "run cmds s1 = Some s'"
    by (auto split: option.splits)
  from exec_ramp[OF Cons.prems(1,2) e]
  have 1: "speedPxPerSec s \<le> speedPxPerSec s1" "spawnIntervalSec s1 \<le> spawnIntervalSec s"
    "1 / 4 \<le> spawnIntervalSec s1" by simp_all
  have "0 \<le> speedPxPerSec s1" using Cons.prems(1) 1(1) by simp
  from Cons.IH[OF this 1(3) r] 1 show ?case by simp
qed

text \<open>
  The floor raises an interval that starts below it: an initial spawn interval of a tenth
  of a second is positive, and the first step sets the interval to a quarter of a second.
\<close>

theorem spawn_floor_counterexample:
  "0 < initialSpawnIntervalSec (cfg_difficulty denseConfig) \<and>
   spawnIntervalSec (newLaneRunnerSim denseConfig) = 1 / 10 \<and>
   map_option spawnIntervalSec
     (update (Fin (1 / 60)) exampleWorld halves (newLaneRunnerSim denseConfig)) = Some (1 / 4)"
  by (simp add: example_defs step_defs)

text \<open>
  C5, amended. From a state whose speed is not negative (the data model has the initial
  speed positive) and whose spawn interval is at least a quarter of a second, as after
  construction from such a configuration, every run of calls, \<open>update\<close> calls with
  positive finite deltas among them, leaves the speed at least what it was and the spawn
  interval at most what it was and at least 0.25. A step that takes effect multiplies the
  speed by \<open>1 + 0.005 * dt\<close>, \<open>dt\<close> the clamped delta, with no upper cap, and sets the
  interval to the larger of 0.25 and the interval times \<open>1 - 0.01 * dt\<close>.
\<close>

theorem difficulty_ramp:
  assumes "0 \<le> speedPxPerSec s" and "1 / 4 \<le> spawnIntervalSec s" and "run cmds s = Some s'"
  shows "speedPxPerSec s \<le> speedPxPerSec s' \<and>
     spawnIntervalSec s' \<le> spawnIntervalSec s \<and>
     1 / 4 \<le> spawnIntervalSec s' \<and>
     (\<forall>d wd rnd s''. \<not> crashed s' \<and> 0 < d \<and> update (Fin d) wd rnd s' = Some s'' \<longrightarrow>
        speedPxPerSec s'' = speedPxPerSec s' * (1 + 0.005 * stepOf d) \<and>
        spawnIntervalSec s'' = max 0.25 (spawnIntervalSec s' * (1 - 0.01 * stepOf d)))"
  using run_ramp[OF assms] update_fields(7,8) by blast

theorem difficulty_ramp_witness:
  "map_option (\<lambda>s. (speedPxPerSec s, spawnIntervalSec s))
     (run [Update (Fin (1 / 50)) exampleWorld halves] (newLaneRunnerSim exampleConfig))
   = Some (220022 / 1000, 134973 / 100000) \<and>
   map_option (\<lambda>s. 220 \<le> speedPxPerSec s \<and> spawnIntervalSec s \<le> 1.35 \<and> 1 / 4 \<le> spawnIntervalSec s)
     (run [Update (Fin (1 / 50)) exampleWorld halves] (newLaneRunnerSim exampleConfig))
   = Some True"
proof -
  let ?s = "newLaneRunnerSim exampleConfig"
  have sp: "0 \<le> speedPxPerSec ?s" and iv: "1 / 4 \<le> spawnIntervalSec ?s"
    and nc: "\<not> crashed ?s"
    by (simp_all add: example_defs)
  have r0: "run [] ?s = Some ?s" by simp
  have d: "(0::real) < 1 / 50" by simp
  obtain s' where upd: "update (Fin (1 / 50)) exampleWorld halves ?s = Some s'"
    using update_returns[OF nc d, of halves exampleWorld] by (auto simp: halves_def)
  have r1: "run [Update (Fin (1 / 50)) exampleWorld halves] ?s = Some s'"
    by (simp add: upd)
  from difficulty_ramp[OF sp iv r0] nc d upd
  have "speedPxPerSec s' = speedPxPerSec ?s * (1 + 0.005 * stepOf (1 / 50))"
    "spawnIntervalSec s' = max 0.25 (spawnIntervalSec ?s * (1 - 0.01 * stepOf (1 / 50)))"
    by blast+
  then have exact: "speedPxPerSec s' = 220022 / 1000 \<and> spawnIntervalSec s' = 134973 / 100000"
    by (simp add: stepOf_def example_defs)
  from difficulty_ramp[OF sp iv r1]
  have "speedPxPerSec ?s \<le> speedPxPerSec s' \<and> spawnIntervalSec s' \<le> spawnIntervalSec ?s \<and>
      1 / 4 \<le> spawnIntervalSec s'"
    by blast
  then have mono: "220 \<le> speedPxPerSec s' \<and> spawnIntervalSec s' \<le> 1.35 \<and> 1 / 4 \<le> spawnIntervalSec s'"
    by (simp add: example_defs)
  show ?thesis unfolding r1 using exact mono by simp
qed

section \<open>The pose timer\<close>







section \<open>Termination of the spawn loop\<close>

lemma update_total:
  assumes rnd: "\<forall>k. 0 \<le> rnd k \<and> rnd k < 1"
  shows "\<exists>s'. update dtSec wd rnd s = Some s'"
proof (cases "crashed s \<or> \<not> isFinite dtSec \<or> js_le dtSec (Fin 0)")
  case True
  then show ?thesis by (auto simp: update_def)
next
  case False
  then obtain d where "dtSec = Fin d" "0 < d" "\<not> crashed s" by (cases dtSec) auto
  with update_returns[OF _ _ rnd, of s d wd] show ?thesis by blast
qed

lemma update_returns_fuel:
  assumes nc: "\<not> crashed s" and d: "0 < d" and rnd: "\<forall>k. 0 \<le> rnd k \<and> rnd k < 1"
    and fuel: "0 < spawnCooldownSec s - stepOf d + real n * (17 / 80)"
  shows "\<exists>s'. update (Fin d) wd rnd s = Some s' \<and>
     length (obstacles s') \<le> length (obstacles s) + n"
proof -
  define dt where "dt = stepOf d"
  define p where "p = updatePose dt (rampDifficulty dt (advanceRun dt s))"
  define s2 where "s2 = p\<lparr>spawnCooldownSec := spawnCooldownSec p - dt\<rparr>"
  have i2: "1 / 4 \<le> spawnIntervalSec s2" by (simp add: s2_def p_def)
  have c2: "0 < spawnCooldownSec s2 + real n * (17 / 80)"
    using fuel by (simp add: s2_def p_def dt_def)
  from spawnLoop_fuel[OF rnd i2 c2, of "roadW wd" 0] obtain new c where
    loop: "spawnLoop (roadW wd) rnd 0 s2
             = Some (s2\<lparr>spawnCooldownSec := c, obstacles := obstacles s2 @ new\<rparr>)"
    and len: "length new \<le> n"
    by blast
  define s3 where "s3 = s2\<lparr>spawnCooldownSec := c, obstacles := obstacles s2 @ new\<rparr>"
  define s' where "s' = collisionLoop wd (moveObstacles dt wd s3) (obstacles (moveObstacles dt wd s3))"
  have res: "update (Fin d) wd rnd s = Some s'"
    using update_step[OF nc d, of wd rnd] loop by (simp add: dt_def p_def s2_def s3_def s'_def)
  have "obstacles s' = obstacles (moveObstacles dt wd s3)"
    by (simp add: s'_def collisionLoop_eq)
  also have "length \<dots> \<le> length (obstacles s3)"
    by (simp add: moveObstacles_def)
  also have "\<dots> = length (obstacles s) + length new" by (simp add: s3_def s2_def p_def)
  finally have "length (obstacles s') \<le> length (obstacles s) + length new" .
  with len res show ?thesis by auto
qed

lemma update_from_positive_cooldown:
  assumes rnd: "\<forall>k. 0 \<le> rnd k \<and> rnd k < 1" and cd: "0 < spawnCooldownSec s"
  shows "\<exists>s'. update dtSec wd rnd s = Some s' \<and> 0 < spawnCooldownSec s' \<and>
     length (obstacles s') \<le> length (obstacles s) + 1"
proof (cases "crashed s \<or> \<not> isFinite dtSec \<or> js_le dtSec (Fin 0)")
  case True
  then have "update dtSec wd rnd s = Some s" by (auto simp: update_def)
  with cd show ?thesis by simp
next
  case False
  then obtain d where dt: "dtSec = Fin d" and d: "0 < d" and nc: "\<not> crashed s"
    by (cases dtSec) auto
  have "stepOf d \<le> 0.05" using stepOf_pos[OF d] by blast
  with cd have "0 < spawnCooldownSec s - stepOf d + real (1::nat) * (17 / 80)" by simp
  from update_returns_fuel[OF nc d rnd this, of wd] obtain s' where
    u: "update (Fin d) wd rnd s = Some s'"
    and len: "length (obstacles s') \<le> length (obstacles s) + 1" by blast
  from update_fields(9)[OF nc d u] u len show ?thesis by (simp add: dt)
qed

lemma run_from_positive_cooldown:
  assumes cd: "0 < spawnCooldownSec s"
    and rnd: "\<forall>c \<in> set cmds. \<forall>dtSec wd rnd. c = Update dtSec wd rnd \<longrightarrow> (\<forall>k. 0 \<le> rnd k \<and> rnd k < 1)"
  shows "\<exists>s'. run cmds s = Some s' \<and> 0 < spawnCooldownSec s'"
  using assms
proof (induction cmds arbitrary: s)
  case Nil
  then show ?case by simp
next
  case (Cons c cmds)
  have "\<exists>s1. exec c s = Some s1 \<and> 0 < spawnCooldownSec s1"
  proof (cases c)
    case (Update dtSec wd rnd)
    with Cons.prems(2) have "\<forall>k. 0 \<le> rnd k \<and> rnd k < 1" by simp
    from update_from_positive_cooldown[OF this Cons.prems(1), of dtSec wd] Update
    show ?thesis by auto
  qed (use Cons.prems(1) in \<open>simp_all add: moveLeft_def moveRight_def moveToLane_def jump_def slide_def\<close>)
  then obtain s1 where e: "exec c s = Some s1" and c1: "0 < spawnCooldownSec s1" by blast
  from Cons.prems(2) have "\<forall>c \<in> set cmds. \<forall>dtSec wd rnd. c = Update dtSec wd rnd \<longrightarrow> (\<forall>k. 0 \<le> rnd k \<and> rnd k < 1)"
    by simp
  from Cons.IH[OF c1 this] e show ?case by simp
qed

lemma cooldownLoop_returns_finite:
  assumes "cooldownLoop i rnd k c = Some y"
  shows "c \<noteq> NInf"
proof (rule cooldownLoop.raw_induct[where P = "\<lambda>i rnd k c y. c \<noteq> NInf", OF _ assms])
  fix loop :: "real \<Rightarrow> (nat \<Rightarrow> real) \<Rightarrow> nat \<Rightarrow> jsnum \<Rightarrow> jsnum option"
  fix i rnd k c y
  assume IH: "\<And>a rnd k c y. loop a rnd k c = Some y \<Longrightarrow> c \<noteq> NInf"
  assume body: "(if js_le c (Fin 0)
      then loop i rnd (k + 5) (js_add c (Fin (i + (rnd (k + 4) * 2 - 1) * (0.15 * i))))
      else Some c) = Some y"
  show "c \<noteq> NInf"
  proof
    assume c: "c = NInf"
    with body have "loop i rnd (k + 5) (js_add NInf (Fin (i + (rnd (k + 4) * 2 - 1) * (0.15 * i)))) = Some y"
      by simp
    from IH[OF this] show False by simp
  qed
qed

text \<open>
  A cooldown of minus infinity, as after construction with an initial spawn interval of
  minus infinity, is still minus infinity after the step is subtracted, and the loop on it
  never returns: every increment leaves it where it is, at most 0.
\<close>

theorem infinite_cooldown_counterexample:
  "js_sub NInf (Fin 0.05) = NInf \<and> cooldownLoop 0.25 halves 0 (js_sub NInf (Fin 0.05)) = None"
proof -
  have "cooldownLoop 0.25 halves 0 NInf = None"
  proof (cases "cooldownLoop 0.25 halves 0 NInf")
    case (Some y)
    from cooldownLoop_returns_finite[OF this] show ?thesis by simp
  qed simp
  then show ?thesis by (simp add: js_sub_def)
qed

text \<open>
  C10, amended. With every draw of \<open>Math.random\<close> in the interval from 0 to 1, 1
  excluded, a call of \<open>update\<close> on a state whose spawn cooldown is positive returns,
  whatever the delta and the geometry; it spawns at most one obstacle and leaves the
  cooldown positive. The cooldown is positive after construction from a configuration
  with a positive initial spawn interval, so every run of calls on such an engine returns,
  with a positive cooldown at its end. One iteration of the loop, entered with a spawn
  interval of at least 0.25 as the floor applied earlier in the call makes it, adds to the
  cooldown the spawn interval and the jitter, together more than 0.2 seconds.
\<close>

theorem spawn_loop_terminates_from_positive_cooldown:
  assumes rnd: "\<forall>k. 0 \<le> rnd k \<and> rnd k < 1"
  shows "(0 < spawnCooldownSec s \<longrightarrow>
       (\<exists>s'. update dtSec wd rnd s = Some s' \<and> 0 < spawnCooldownSec s' \<and>
          length (obstacles s') \<le> length (obstacles s) + 1)) \<and>
    (0 < initialSpawnIntervalSec (cfg_difficulty cfg) \<and>
     (\<forall>c \<in> set cmds. \<forall>dtSec wd rnd. c = Update dtSec wd rnd \<longrightarrow> (\<forall>k. 0 \<le> rnd k \<and> rnd k < 1)) \<longrightarrow>
       (\<exists>s'. run cmds (newLaneRunnerSim cfg) = Some s' \<and> 0 < spawnCooldownSec s')) \<and>
    (1 / 4 \<le> spawnIntervalSec s \<and> spawnCooldownSec s \<le> 0 \<longrightarrow>
       spawnLoop roadW0 rnd k s =
         spawnLoop roadW0 rnd (k + 5)
           ((spawnObstacle roadW0 rnd k s)
              \<lparr>spawnCooldownSec := spawnCooldownSec s +
                 (spawnIntervalSec s + (rnd (k + 4) * 2 - 1) * (0.15 * spawnIntervalSec s))\<rparr>) \<and>
       1 / 5 < spawnIntervalSec s + (rnd (k + 4) * 2 - 1) * (0.15 * spawnIntervalSec s))"
proof (intro conjI impI)
  assume "0 < spawnCooldownSec s"
  from update_from_positive_cooldown[OF rnd this]
  show "\<exists>s'. update dtSec wd rnd s = Some s' \<and> 0 < spawnCooldownSec s' \<and>
          length (obstacles s') \<le> length (obstacles s) + 1" .
next
  assume a: "0 < initialSpawnIntervalSec (cfg_difficulty cfg) \<and>
     (\<forall>c \<in> set cmds. \<forall>dtSec wd rnd. c = Update dtSec wd rnd \<longrightarrow> (\<forall>k. 0 \<le> rnd k \<and> rnd k < 1))"
  then have "0 < spawnCooldownSec (newLaneRunnerSim cfg)" by (simp add: newLaneRunnerSim_def)
  from run_from_positive_cooldown[OF this] a
  show "\<exists>s'. run cmds (newLaneRunnerSim cfg) = Some s' \<and> 0 < spawnCooldownSec s'" by blast
next
  assume a: "1 / 4 \<le> spawnIntervalSec s \<and> spawnCooldownSec s \<le> 0"
  then show "spawnLoop roadW0 rnd k s =
         spawnLoop roadW0 rnd (k + 5)
           ((spawnObstacle roadW0 rnd k s)
              \<lparr>spawnCooldownSec := spawnCooldownSec s +
                 (spawnIntervalSec s + (rnd (k + 4) * 2 - 1) * (0.15 * spawnIntervalSec s))\<rparr>)"
    by (subst spawnLoop.simps) simp
  from a rnd have "17 / 80 \<le> spawnIntervalSec s + (rnd (k + 4) * 2 - 1) * (0.15 * spawnIntervalSec s)"
    by (intro spawn_increment) auto
  then show "1 / 5 < spawnIntervalSec s + (rnd (k + 4) * 2 - 1) * (0.15 * spawnIntervalSec s)"
    by simp
qed

theorem spawn_loop_terminates_from_positive_cooldown_witness:
  "\<exists>s'. update (Fin 0.05) exampleWorld halves dueSpawn = Some s' \<and>
     0 < spawnCooldownSec s' \<and> length (obstacles s') = 1"
proof -
  have rnd: "\<forall>k. 0 \<le> halves k \<and> halves k < 1" by (simp add: halves_def)
  have cd: "0 < spawnCooldownSec dueSpawn" by (simp add: example_defs)
  from spawn_loop_terminates_from_positive_cooldown[OF rnd, of dueSpawn "Fin 0.05" exampleWorld] cd
  obtain s' where u: "update (Fin 0.05) exampleWorld halves dueSpawn = Some s'"
    and c: "0 < spawnCooldownSec s'" and l: "length (obstacles s') \<le> length (obstacles dueSpawn) + 1"
    by blast
  have "map_option (\<lambda>s. length (obstacles s))
      (update (Fin 0.05) exampleWorld halves dueSpawn) = Some 1"
    by (simp add: example_defs step_defs spawnObstacle_def Math_floor_def makeId_def)
  then have "length (obstacles s') = 1" unfolding u by simp
  with u c show ?thesis by blast
qed

section \<open>Collision\<close>




end
